theory Spec2Isabelle
  imports Main "HOL-Library.FSet"
begin

section \<open>The key-value store\<close>

text \<open>
  The handlers talk to a Redis store through \<open>redis.hset\<close>, \<open>redis.hgetall\<close>,
  \<open>redis.expire\<close>, \<open>redis.ttl\<close>, \<open>redis.del\<close>, \<open>redis.exists\<close>, \<open>redis.rpush\<close>,
  \<open>redis.lrange\<close>, \<open>redis.sismember\<close> and one \<open>redis.eval\<close> script. Three families of
  keys are used: \<open>meta:<roomId>\<close> (a hash), \<open>messages:<roomId>\<close> (a list) and
  \<open>connected:<roomId>\<close> (a set). The three prefixes are pairwise different, so the
  families never share a key (lemma \<open>key_families_disjoint\<close>) and each family is kept as
  its own keyspace, indexed by the room id.

  A keyspace entry is the value together with its expiry deadline, if it has one, on the
  store's clock (whole seconds). Expired keys are removed when the clock advances
  (\<open>ks_purge\<close>), so a key that is present is live.
\<close>

definition meta_key :: "string \<Rightarrow> string" where
  "meta_key roomId = ''meta:'' @ roomId"

definition messages_key :: "string \<Rightarrow> string" where
  "messages_key roomId = ''messages:'' @ roomId"

definition connected_key :: "string \<Rightarrow> string" where
  "connected_key roomId = ''connected:'' @ roomId"

type_synonym 'v keyspace = "string \<Rightarrow> ('v \<times> nat option) option"

definition ks_get :: "'v keyspace \<Rightarrow> string \<Rightarrow> 'v option" where
  "ks_get ks k = map_option fst (ks k)"

definition ks_exists :: "'v keyspace \<Rightarrow> string \<Rightarrow> bool" where
  "ks_exists ks k = (ks k \<noteq> None)"

text \<open>Writing a value keeps the deadline of an existing key; a new key has none.\<close>

definition ks_put :: "'v keyspace \<Rightarrow> string \<Rightarrow> 'v \<Rightarrow> 'v keyspace" where
  "ks_put ks k v = ks(k \<mapsto> (v, case ks k of None \<Rightarrow> None | Some e \<Rightarrow> snd e))"

definition ks_del :: "'v keyspace \<Rightarrow> string \<Rightarrow> 'v keyspace" where
  "ks_del ks k = ks(k := None)"

text \<open>
  \<open>TTL key\<close>: \<open>-2\<close> when the key does not exist, \<open>-1\<close> when it has no expiry, the
  remaining seconds otherwise.
\<close>

definition ks_ttl :: "nat \<Rightarrow> 'v keyspace \<Rightarrow> string \<Rightarrow> int" where
  "ks_ttl now ks k =
     (case ks k of
        None \<Rightarrow> - 2
      | Some e \<Rightarrow> (case snd e of None \<Rightarrow> - 1 | Some d \<Rightarrow> int d - int now))"

text \<open>
  \<open>EXPIRE key seconds\<close>: nothing on a missing key; a timeout that is not positive
  deletes the key; otherwise the deadline becomes now + seconds.
\<close>

definition ks_expire :: "nat \<Rightarrow> 'v keyspace \<Rightarrow> string \<Rightarrow> int \<Rightarrow> 'v keyspace" where
  "ks_expire now ks k seconds =
     (case ks k of
        None \<Rightarrow> ks
      | Some e \<Rightarrow>
          if seconds \<le> 0 then ks(k := None)
          else ks(k \<mapsto> (fst e, Some (now + nat seconds))))"

definition ks_purge :: "nat \<Rightarrow> 'v keyspace \<Rightarrow> 'v keyspace" where
  "ks_purge now ks =
     (\<lambda>k. case ks k of
             None \<Rightarrow> None
           | Some e \<Rightarrow>
               (case snd e of
                  None \<Rightarrow> Some e
                | Some d \<Rightarrow> if d \<le> now then None else Some e))"

section \<open>Data model\<close>

text \<open>The hash stored under \<open>meta:<roomId>\<close>.\<close>

record meta =
  connected :: "string list"
  createdAt :: int
  type :: string
  users :: "string list"

text \<open>
  \<open>Message\<close> as broadcast, and as stored in the list under \<open>messages:<roomId>\<close>, where it
  carries the author's token. In a listing the token is a string or \<open>undefined\<close>.
\<close>

record message =
  id_msg :: string
  sender :: string
  text_msg :: string
  timestamp :: int
  roomId :: string

record stored_message = message +
  token :: "string option"

datatype event =
  chat_user_joined string
  | chat_user_left "string option"
  | chat_destroy bool
  | chat_message message

text \<open>
  The store, its clock, and the events emitted so far through
  \<open>realtime.channel(roomId).emit\<close>, oldest first, each with its channel.
\<close>

record sys =
  meta_db :: "meta keyspace"
  messages_db :: "stored_message list keyspace"
  connected_db :: "string fset keyspace"
  clock :: nat
  emitted :: "(string \<times> event) list"

definition init :: sys where
  "init = \<lparr>meta_db = Map.empty, messages_db = Map.empty, connected_db = Map.empty,
           clock = 0, emitted = []\<rparr>"

definition emit :: "sys \<Rightarrow> string \<Rightarrow> event \<Rightarrow> sys" where
  "emit s channel ev = s\<lparr>emitted := emitted s @ [(channel, ev)]\<rparr>"

text \<open>The store's clock advances by \<open>d\<close> seconds; keys whose deadline is reached go.\<close>

definition tick :: "nat \<Rightarrow> sys \<Rightarrow> sys" where
  "tick d s =
     (let now = clock s + d in
      s\<lparr>meta_db := ks_purge now (meta_db s),
        messages_db := ks_purge now (messages_db s),
        connected_db := ks_purge now (connected_db s),
        clock := now\<rparr>)"

section \<open>The middleware: atomic admission\<close>

text \<open>\<open>SCARD\<close> of a missing key is 0; \<open>SADD\<close> creates the set.\<close>

definition scard :: "string fset keyspace \<Rightarrow> string \<Rightarrow> nat" where
  "scard ks k = (case ks_get ks k of None \<Rightarrow> 0 | Some m \<Rightarrow> fcard m)"

definition smembers :: "string fset keyspace \<Rightarrow> string \<Rightarrow> string fset" where
  "smembers ks k = (case ks_get ks k of None \<Rightarrow> {||} | Some m \<Rightarrow> m)"

definition sadd :: "string fset keyspace \<Rightarrow> string \<Rightarrow> string \<Rightarrow> string fset keyspace" where
  "sadd ks k x = ks_put ks k (finsert x (smembers ks k))"

definition sismember :: "string fset keyspace \<Rightarrow> string \<Rightarrow> string \<Rightarrow> bool" where
  "sismember ks k x = (x |\<in>| smembers ks k)"

text \<open>
  The script of the middleware, run by the store as one step:
  \<^verbatim>\<open>local count = redis.call('SCARD', KEYS[1])
  if count >= 2 then return 0 end
  redis.call('SADD', KEYS[1], ARGV[1])
  return 1\<close>
\<close>

definition admit_script ::
  "string fset keyspace \<Rightarrow> string \<Rightarrow> string \<Rightarrow> int \<times> string fset keyspace" where
  "admit_script ks key arg =
     (let count = scard ks key in
      if count \<ge> 2 then (0, ks) else (1, sadd ks key arg))"

definition admit :: "sys \<Rightarrow> string \<Rightarrow> string \<Rightarrow> int \<times> sys" where
  "admit s room tok =
     (let (added, ks) = admit_script (connected_db s) room tok
      in (added, s\<lparr>connected_db := ks\<rparr>))"

text \<open>
  Admission attempts of many callers on one room: the store runs scripts one at a time,
  so any concurrent execution is some order of whole script runs.
\<close>

fun admit_all :: "sys \<Rightarrow> string \<Rightarrow> string list \<Rightarrow> int list \<times> sys" where
  "admit_all s room [] = ([], s)"
| "admit_all s room (tok # toks) =
     (let (added, s') = admit s room tok;
          (rest, s'') = admit_all s' room toks
      in (added # rest, s''))"

definition admitted :: "int list \<Rightarrow> nat" where
  "admitted replies = length (filter (\<lambda>a. a = 1) replies)"

text \<open>
  The middleware. \<open>room_match\<close> is the room id captured from the path by
  \<open>/^\/room\/([^/]+)$/\<close>, \<open>isBot\<close> is the verdict of the function of that name on the
  user agent, \<open>existingToken\<close> the value of the \<open>x-auth-token\<close> cookie and \<open>tok\<close> the
  fresh \<open>nanoid()\<close>. The response is a redirect or \<open>NextResponse.next()\<close>, with the
  cookie it sets, if any.
\<close>

definition room_match :: "string \<Rightarrow> string option" where
  "room_match pathname =
     (let rest = drop 6 pathname in
      if take 6 pathname = ''/room/'' \<and> rest \<noteq> [] \<and> CHR ''/'' \<notin> set rest
      then Some rest else None)"

datatype response = redirect string | next_response "string option"

definition middleware ::
  "sys \<Rightarrow> string \<Rightarrow> bool \<Rightarrow> string option \<Rightarrow> string \<Rightarrow> response \<times> sys" where
  "middleware s pathname isBot existingToken tok =
     (case room_match pathname of
        None \<Rightarrow> (redirect ''/'', s)
      | Some room \<Rightarrow>
          if \<not> ks_exists (meta_db s) room then (redirect ''/?error=room-not-found'', s)
          else if isBot then (next_response None, s)
          else if (case existingToken of
                     None \<Rightarrow> False
                   | Some t \<Rightarrow> t \<noteq> [] \<and> sismember (connected_db s) room t)
          then (next_response None, s)
          else
            (let (added, s1) = admit s room tok in
             if added = 0 then (redirect ''/?error=room-full'', s1)
             else
               (let ttl = ks_ttl (clock s1) (meta_db s1) room;
                    s2 = (if ttl > 0
                          then s1\<lparr>connected_db :=
                                    ks_expire (clock s1) (connected_db s1) room ttl\<rparr>
                          else s1)
                in (next_response (Some tok), s2))))"

section \<open>The API handlers\<close>

definition ROOM_TTL_SECONDS :: int where
  "ROOM_TTL_SECONDS = 60 * 10"

definition MAX_PRIVATE_USERS :: nat where
  "MAX_PRIVATE_USERS = 2"

text \<open>
  What \<open>authMiddleware\<close> hands to a handler. A handler that can throw returns its
  outcome, where a thrown \<open>Error\<close> is the left summand with its message, together with
  the state it leaves behind.
\<close>

record auth =
  auth_roomId :: string
  auth_token :: string

datatype api_error = Error string

subsection \<open>JavaScript array operations\<close>

text \<open>\<open>xs.indexOf(x)\<close>: the first position of \<open>x\<close>, or \<open>-1\<close>.\<close>

fun indexOf :: "'a list \<Rightarrow> 'a \<Rightarrow> int" where
  "indexOf [] x = - 1"
| "indexOf (y # ys) x =
     (if y = x then 0
      else (let i = indexOf ys x in if i < 0 then - 1 else i + 1))"

text \<open>\<open>xs[i]\<close>: \<open>undefined\<close> outside the array.\<close>

definition at_index :: "'a list \<Rightarrow> int \<Rightarrow> 'a option" where
  "at_index xs i = (if 0 \<le> i \<and> i < int (length xs) then Some (xs ! nat i) else None)"

text \<open>\<open>xs.filter((_, i) => i !== k)\<close>.\<close>

definition filter_index :: "'a list \<Rightarrow> int \<Rightarrow> 'a list" where
  "filter_index xs k = map snd (filter (\<lambda>p. int (fst p) \<noteq> k) (enumerate 0 xs))"

subsection \<open>List commands of the store\<close>

definition lrange_all :: "'a list keyspace \<Rightarrow> string \<Rightarrow> 'a list" where
  "lrange_all ks k = (case ks_get ks k of None \<Rightarrow> [] | Some l \<Rightarrow> l)"

definition rpush :: "'a list keyspace \<Rightarrow> string \<Rightarrow> 'a \<Rightarrow> 'a list keyspace" where
  "rpush ks k x = ks_put ks k (lrange_all ks k @ [x])"

subsection \<open>Rooms\<close>

text \<open>
  \<open>POST /room/create\<close>. The body schema admits the types \<open>group\<close> and \<open>private\<close>;
  \<open>room\<close> and \<open>tok\<close> are the two \<open>nanoid()\<close> values and \<open>now\<close> is \<open>Date.now()\<close>.
\<close>

definition create_body_ok :: "string \<Rightarrow> string \<Rightarrow> bool" where
  "create_body_ok ty username = (ty = ''group'' \<or> ty = ''private'')"

definition create ::
  "sys \<Rightarrow> string \<Rightarrow> string \<Rightarrow> string \<Rightarrow> string \<Rightarrow> int
     \<Rightarrow> (string \<times> string \<times> string) \<times> sys" where
  "create s ty username room tok now =
     (let s1 = s\<lparr>meta_db := ks_put (meta_db s) room
                   \<lparr>connected = [tok], createdAt = now, type = ty, users = [username]\<rparr>\<rparr>;
          s2 = s1\<lparr>meta_db := ks_expire (clock s1) (meta_db s1) room ROOM_TTL_SECONDS\<rparr>
      in ((room, tok, ty), s2))"

text \<open>\<open>POST /room/join\<close>; \<open>tok\<close> is the \<open>nanoid()\<close> value.\<close>

datatype join_reply = join_error string | join_ok string string string

definition join :: "sys \<Rightarrow> string \<Rightarrow> string \<Rightarrow> string \<Rightarrow> join_reply \<times> sys" where
  "join s room username tok =
     (case ks_get (meta_db s) room of
        None \<Rightarrow> (join_error ''room-not-found'', s)
      | Some m \<Rightarrow>
          if type m = ''private'' \<and> length (users m) \<ge> MAX_PRIVATE_USERS
          then (join_error ''room-full'', s)
          else
            (let updatedUsers = users m @ [username];
                 s1 = s\<lparr>meta_db := ks_put (meta_db s) room
                          (m\<lparr>users := updatedUsers, connected := connected m @ [tok]\<rparr>)\<rparr>;
                 s2 = emit s1 room (chat_user_joined username)
             in (join_ok room tok (type m), s2)))"

text \<open>
  The handler of \<open>/join\<close> reads the record with \<open>hgetall\<close> and writes it back with
  \<open>hset\<close> in a later call to the store. \<open>join_write\<close> is the handler from the capacity
  check on, for the record \<open>m\<close> that was read, run on the state the store is in by then;
  \<open>join_delayed\<close> is the handler with \<open>d\<close> seconds between the read and the write.
\<close>

definition join_write :: "sys \<Rightarrow> string \<Rightarrow> string \<Rightarrow> string \<Rightarrow> meta \<Rightarrow> join_reply \<times> sys" where
  "join_write s room username tok m =
     (if type m = ''private'' \<and> length (users m) \<ge> MAX_PRIVATE_USERS
      then (join_error ''room-full'', s)
      else
        (let updatedUsers = users m @ [username];
             s1 = s\<lparr>meta_db := ks_put (meta_db s) room
                      (m\<lparr>users := updatedUsers, connected := connected m @ [tok]\<rparr>)\<rparr>;
             s2 = emit s1 room (chat_user_joined username)
         in (join_ok room tok (type m), s2)))"

definition join_delayed ::
  "nat \<Rightarrow> sys \<Rightarrow> string \<Rightarrow> string \<Rightarrow> string \<Rightarrow> join_reply \<times> sys" where
  "join_delayed d s room username tok =
     (case ks_get (meta_db s) room of
        None \<Rightarrow> (join_error ''room-not-found'', s)
      | Some m \<Rightarrow> join_write (tick d s) room username tok m)"

text \<open>\<open>GET /room/ttl\<close>.\<close>

definition get_ttl :: "sys \<Rightarrow> auth \<Rightarrow> int" where
  "get_ttl s a =
     (let ttl = ks_ttl (clock s) (meta_db s) (auth_roomId a)
      in if ttl > 0 then ttl else 0)"

text \<open>\<open>GET /room/users\<close>; an empty string is falsy, an empty array is not.\<close>

definition get_users :: "sys \<Rightarrow> auth \<Rightarrow> string list \<times> string" where
  "get_users s a =
     (case ks_get (meta_db s) (auth_roomId a) of
        None \<Rightarrow> ([], ''private'')
      | Some m \<Rightarrow> (users m, if type m = [] then ''private'' else type m))"

text \<open>\<open>DELETE /room/leave\<close>; the result is the \<open>success\<close> field of the reply.\<close>

definition leave :: "sys \<Rightarrow> auth \<Rightarrow> bool \<times> sys" where
  "leave s a =
     (case ks_get (meta_db s) (auth_roomId a) of
        None \<Rightarrow> (False, s)
      | Some m \<Rightarrow>
          (let tokenIndex = indexOf (connected m) (auth_token a);
               username = at_index (users m) tokenIndex;
               updatedUsers = filter_index (users m) tokenIndex;
               updatedConnected = filter (\<lambda>t. t \<noteq> auth_token a) (connected m)
           in if length updatedUsers = 0
              then
                (let s1 = s\<lparr>meta_db := ks_del (meta_db s) (auth_roomId a),
                            messages_db := ks_del (messages_db s) (auth_roomId a)\<rparr>
                 in (True, emit s1 (auth_roomId a) (chat_destroy True)))
              else
                (let s1 = s\<lparr>meta_db := ks_put (meta_db s) (auth_roomId a)
                              (m\<lparr>users := updatedUsers, connected := updatedConnected\<rparr>)\<rparr>
                 in (True, emit s1 (auth_roomId a) (chat_user_left username)))))"

text \<open>\<open>DELETE /room/\<close>.\<close>

definition destroy :: "sys \<Rightarrow> auth \<Rightarrow> (api_error + bool) \<times> sys" where
  "destroy s a =
     (if map_option type (ks_get (meta_db s) (auth_roomId a)) = Some ''group''
      then (Inl (Error ''Cannot manually destroy group rooms''), s)
      else
        (let s1 = emit s (auth_roomId a) (chat_destroy True);
             s2 = s1\<lparr>meta_db := ks_del (meta_db s1) (auth_roomId a),
                     messages_db := ks_del (messages_db s1) (auth_roomId a)\<rparr>
         in (Inr True, s2)))"

subsection \<open>Messages\<close>

text \<open>
  \<open>POST /messages/\<close>. The body schema bounds the sender by 100 and the text by 1000
  characters; \<open>mid\<close> is the \<open>nanoid()\<close> value and \<open>now\<close> is \<open>Date.now()\<close>. The handler
  returns nothing.
\<close>

definition post_body_ok :: "string \<Rightarrow> string \<Rightarrow> bool" where
  "post_body_ok sndr txt = (length sndr \<le> 100 \<and> length txt \<le> 1000)"

definition post_message ::
  "sys \<Rightarrow> auth \<Rightarrow> string \<Rightarrow> string \<Rightarrow> string \<Rightarrow> int \<Rightarrow> (api_error + unit) \<times> sys" where
  "post_message s a sndr txt mid now =
     (let room = auth_roomId a in
      if \<not> ks_exists (meta_db s) room then (Inl (Error ''Room does not exist''), s)
      else
        (let msg = \<lparr>id_msg = mid, sender = sndr, text_msg = txt, timestamp = now,
                    roomId = room\<rparr>;
             s1 = s\<lparr>messages_db := rpush (messages_db s) room
                      (message.extend msg \<lparr>token = Some (auth_token a)\<rparr>)\<rparr>;
             s2 = emit s1 room (chat_message msg);
             remaining = ks_ttl (clock s2) (meta_db s2) room;
             s3 = s2\<lparr>messages_db := ks_expire (clock s2) (messages_db s2) room remaining\<rparr>
         in (Inr (), s3)))"

text \<open>\<open>GET /messages/\<close>.\<close>

definition list_messages :: "sys \<Rightarrow> auth \<Rightarrow> stored_message list" where
  "list_messages s a =
     map (\<lambda>m. m\<lparr>token := (if token m = Some (auth_token a)
                            then Some (auth_token a) else None)\<rparr>)
       (lrange_all (messages_db s) (auth_roomId a))"

section \<open>Reading a run of admissions\<close>

text \<open>The tokens of the attempts that were answered 1.\<close>

definition admitted_tokens :: "string list \<Rightarrow> int list \<Rightarrow> string list" where
  "admitted_tokens toks replies = map fst (filter (\<lambda>p. snd p = 1) (zip toks replies))"

section \<open>Reachable states\<close>

text \<open>
  The states the system gets into from the empty store: requests are served one after
  the other, and the store's clock advances between them.
\<close>

inductive reachable :: "sys \<Rightarrow> bool" where
  reach_init: "reachable init"
| reach_tick: "reachable s \<Longrightarrow> reachable (tick d s)"
| reach_middleware: "reachable s \<Longrightarrow> reachable (snd (middleware s pathname isBot ex tok))"
| reach_create: "reachable s \<Longrightarrow> reachable (snd (create s ty username room tok now))"
| reach_join: "reachable s \<Longrightarrow> reachable (snd (join s room username tok))"
| reach_leave: "reachable s \<Longrightarrow> reachable (snd (leave s a))"
| reach_destroy: "reachable s \<Longrightarrow> reachable (snd (destroy s a))"
| reach_post: "reachable s \<Longrightarrow> reachable (snd (post_message s a sndr txt mid now))"

text \<open>
  A metadata record that exists carries a deadline that lies ahead, at most
  \<open>ROOM_TTL_SECONDS\<close> away.
\<close>

definition meta_deadline_ok :: "sys \<Rightarrow> string \<Rightarrow> bool" where
  "meta_deadline_ok s room =
     (case meta_db s room of
        None \<Rightarrow> True
      | Some e \<Rightarrow>
          (case snd e of
             None \<Rightarrow> False
           | Some d \<Rightarrow> clock s < d \<and> int d \<le> int (clock s) + ROOM_TTL_SECONDS))"

section \<open>Example states\<close>

text \<open>
  A private room just created by alice; a group room; the private room after bob has
  joined it; the private room after the middleware has admitted a visitor; and the room
  with bob after alice has posted a message.
\<close>

definition private_room :: sys where
  "private_room = snd (create init ''private'' ''alice'' ''r'' ''t1'' 1000)"

definition group_room :: sys where
  "group_room = snd (create init ''group'' ''alice'' ''g'' ''t1'' 1000)"

definition full_room :: sys where
  "full_room = snd (join private_room ''r'' ''bob'' ''t2'')"

definition visitor_room :: sys where
  "visitor_room = snd (middleware private_room ''/room/r'' False None ''t9'')"

definition posted_room :: sys where
  "posted_room = snd (post_message full_room \<lparr>auth_roomId = ''r'', auth_token = ''t1''\<rparr>
                        ''alice'' ''hi'' ''m1'' 2000)"

text \<open>
  The private room when bob's join read the record before it expired and wrote it
  back after: the record is there again, without an expiry.
\<close>

definition stale_join_room :: sys where
  "stale_join_room = snd (join_delayed 600 private_room ''r'' ''bob'' ''t2'')"

section \<open>Facts about the store\<close>

lemma key_families_disjoint:
  "meta_key a \<noteq> messages_key b" "meta_key a \<noteq> connected_key b"
  "messages_key a \<noteq> connected_key b"
  by (simp_all add: meta_key_def messages_key_def connected_key_def)

lemma key_families_inj:
  "(meta_key a = meta_key b) = (a = b)" "(messages_key a = messages_key b) = (a = b)"
  "(connected_key a = connected_key b) = (a = b)"
  by (simp_all add: meta_key_def messages_key_def connected_key_def)

lemmas store_defs = ks_get_def ks_put_def ks_del_def ks_exists_def ks_ttl_def ks_expire_def ks_purge_def
  scard_def smembers_def sadd_def sismember_def lrange_all_def rpush_def emit_def

lemma smembers_sadd: "smembers (sadd ks k x) k' = (if k' = k then finsert x (smembers ks k) else smembers ks k')"
  by (simp add: smembers_def sadd_def ks_put_def ks_get_def)

lemma scard_smembers: "scard ks k = fcard (smembers ks k)"
  by (simp add: scard_def smembers_def split: option.splits)

lemma admit_unfold:
  "admit s room tok =
     (if 2 \<le> scard (connected_db s) room then (0, s)
      else (1, s\<lparr>connected_db := sadd (connected_db s) room tok\<rparr>))"
  by (simp add: admit_def admit_script_def)

lemma admit_scard_le:
  assumes "scard (connected_db s) r \<le> 2"
  shows "scard (connected_db (snd (admit s room tok))) r \<le> 2"
  using assms
  by (auto simp: admit_unfold scard_smembers smembers_sadd fcard_finsert_if)

lemma admit_frame:
  "meta_db (snd (admit s room tok)) = meta_db s"
  "messages_db (snd (admit s room tok)) = messages_db s"
  "clock (snd (admit s room tok)) = clock s"
  "emitted (snd (admit s room tok)) = emitted s"
  by (simp_all add: admit_unfold)

lemma smembers_expire:
  "0 < n \<Longrightarrow> smembers (ks_expire now ks k n) k' = smembers ks k'"
  by (auto simp: smembers_def ks_expire_def ks_get_def split: option.splits)

lemma scard_purge: "scard (ks_purge now ks) k \<le> scard ks k"
  by (simp add: scard_def ks_purge_def ks_get_def split: option.splits)

lemma middleware_meta: "meta_db (snd (middleware s pathname isBot ex tok)) = meta_db s"
  by (simp add: middleware_def admit_frame split_beta Let_def split: option.splits)

lemma middleware_clock: "clock (snd (middleware s pathname isBot ex tok)) = clock s"
  by (simp add: middleware_def admit_frame split_beta Let_def split: option.splits)

lemma middleware_scard_le:
  assumes "scard (connected_db s) r \<le> 2"
  shows "scard (connected_db (snd (middleware s pathname isBot ex tok))) r \<le> 2"
  using assms admit_scard_le[OF assms, of _ tok]
  by (auto simp: middleware_def split_beta Let_def scard_smembers smembers_expire split: option.splits)

lemma create_connected: "connected_db (snd (create s ty username room tok now)) = connected_db s"
  by (simp add: create_def Let_def)
lemma join_connected: "connected_db (snd (join s room username tok)) = connected_db s"
  by (simp add: join_def Let_def emit_def split: option.splits)
lemma leave_connected: "connected_db (snd (leave s a)) = connected_db s"
  by (simp add: leave_def Let_def emit_def split: option.splits)
lemma destroy_connected: "connected_db (snd (destroy s a)) = connected_db s"
  by (simp add: destroy_def Let_def emit_def)
lemma post_connected: "connected_db (snd (post_message s a sndr txt mid now)) = connected_db s"
  by (simp add: post_message_def Let_def emit_def)

lemma reachable_capacity: "reachable s \<Longrightarrow> scard (connected_db s) room \<le> 2"
proof (induction rule: reachable.induct)
  case reach_init
  show ?case by (simp add: init_def scard_def ks_get_def)
next
  case (reach_tick s d)
  have "scard (connected_db (tick d s)) room \<le> scard (connected_db s) room"
    by (simp add: tick_def Let_def scard_purge)
  with reach_tick.IH show ?case by simp
next
  case (reach_middleware s pathname isBot ex tok)
  then show ?case by (simp add: middleware_scard_le)
qed (simp_all add: create_connected join_connected leave_connected destroy_connected post_connected)

lemma tick_deadline: "meta_deadline_ok s room \<Longrightarrow> meta_deadline_ok (tick d s) room"
  by (auto simp: meta_deadline_ok_def tick_def Let_def ks_purge_def split: option.splits)

lemma create_deadline: "meta_deadline_ok s r \<Longrightarrow> meta_deadline_ok (snd (create s ty username room tok now)) r"
  by (auto simp: meta_deadline_ok_def create_def Let_def ks_put_def ks_expire_def ROOM_TTL_SECONDS_def split: option.splits)

lemma join_deadline: "meta_deadline_ok s r \<Longrightarrow> meta_deadline_ok (snd (join s room username tok)) r"
  by (auto simp: meta_deadline_ok_def join_def Let_def ks_put_def ks_get_def emit_def split: option.splits)

lemma leave_deadline: "meta_deadline_ok s r \<Longrightarrow> meta_deadline_ok (snd (leave s a)) r"
  by (auto simp: meta_deadline_ok_def leave_def Let_def ks_put_def ks_del_def ks_get_def emit_def split: option.splits)

lemma destroy_deadline: "meta_deadline_ok s r \<Longrightarrow> meta_deadline_ok (snd (destroy s a)) r"
  by (auto simp: meta_deadline_ok_def destroy_def Let_def ks_del_def emit_def split: option.splits)

lemma post_meta: "meta_db (snd (post_message s a sndr txt mid now)) = meta_db s"
  by (simp add: post_message_def Let_def emit_def)
lemma post_clock: "clock (snd (post_message s a sndr txt mid now)) = clock s"
  by (simp add: post_message_def Let_def emit_def)

lemma meta_deadline_ok_frame:
  "meta_db s' = meta_db s \<Longrightarrow> clock s' = clock s \<Longrightarrow> meta_deadline_ok s' room = meta_deadline_ok s room"
  by (simp add: meta_deadline_ok_def split: option.splits)

lemma reachable_deadline: "reachable s \<Longrightarrow> meta_deadline_ok s room"
proof (induction rule: reachable.induct)
  case reach_init
  show ?case by (simp add: init_def meta_deadline_ok_def)
next
  case (reach_middleware s pathname isBot ex tok)
  then show ?case by (simp add: meta_deadline_ok_frame [OF middleware_meta middleware_clock])
next
  case (reach_post s a sndr body_text mid now)
  then show ?case by (simp add: meta_deadline_ok_frame [OF post_meta post_clock])
qed (simp_all add: tick_deadline create_deadline join_deadline leave_deadline destroy_deadline)

lemma admit_all_scard_le:
  "scard (connected_db s) r \<le> 2 \<Longrightarrow> scard (connected_db (snd (admit_all s room toks))) r \<le> 2"
proof (induction toks arbitrary: s)
  case Nil
  then show ?case by simp
next
  case (Cons t ts)
  from admit_scard_le[OF Cons.prems] Cons.IH[of "snd (admit s room t)"]
  show ?case by (simp add: split_beta Let_def)
qed

lemma admit_all_members:
  "smembers (connected_db (snd (admit_all s room toks))) room =
     smembers (connected_db s) room |\<union>| fset_of_list (admitted_tokens toks (fst (admit_all s room toks)))"
proof (induction toks arbitrary: s)
  case Nil
  then show ?case by (simp add: admitted_tokens_def)
next
  case (Cons t ts)
  show ?case
    using Cons.IH[of "snd (admit s room t)"]
    by (auto simp: split_beta Let_def admitted_tokens_def admit_unfold smembers_sadd)
qed

lemma admit_all_count:
  "distinct toks \<Longrightarrow> \<forall>t \<in> set toks. \<not> sismember (connected_db s) room t \<Longrightarrow>
   scard (connected_db s) room \<le> 2 \<Longrightarrow>
   admitted (fst (admit_all s room toks)) + scard (connected_db s) room \<le> 2"
proof (induction toks arbitrary: s)
  case Nil
  then show ?case by (simp add: admitted_def)
next
  case (Cons t ts)
  let ?s = "snd (admit s room t)"
  have fresh: "\<forall>u \<in> set ts. \<not> sismember (connected_db ?s) room u"
    using Cons.prems by (auto simp: admit_unfold sismember_def smembers_sadd)
  have le: "scard (connected_db ?s) room \<le> 2"
    using Cons.prems(3) by (rule admit_scard_le)
  have IH: "admitted (fst (admit_all ?s room ts)) + scard (connected_db ?s) room \<le> 2"
    using Cons.IH[OF _ fresh le] Cons.prems(1) by simp
  have step: "scard (connected_db ?s) room = scard (connected_db s) room + (if fst (admit s room t) = 1 then 1 else 0)"
    using Cons.prems(2)
    by (auto simp: admit_unfold scard_smembers smembers_sadd sismember_def fcard_finsert_if)
  show ?case using IH step
    by (auto simp: split_beta Let_def admitted_def)
qed

lemma admitted_tokens_le:
  assumes "scard (connected_db s) room \<le> 2"
  shows "fcard (fset_of_list (admitted_tokens toks (fst (admit_all s room toks)))) \<le> 2"
proof -
  let ?A = "fset_of_list (admitted_tokens toks (fst (admit_all s room toks)))"
  let ?M = "smembers (connected_db (snd (admit_all s room toks))) room"
  have "?A |\<subseteq>| ?M" by (subst admit_all_members) simp
  then have "fcard ?A \<le> fcard ?M" by (rule fcard_mono)
  also have "\<dots> \<le> 2" using admit_all_scard_le[OF assms, of room toks] by (simp add: scard_smembers)
  finally show ?thesis .
qed

section \<open>Facts about the handlers\<close>

lemmas example_defs = private_room_def group_room_def full_room_def visitor_room_def
  stale_join_room_def join_delayed_def join_write_def
  init_def create_def join_def middleware_def tick_def admit_def admit_script_def room_match_def
  ROOM_TTL_SECONDS_def MAX_PRIVATE_USERS_def Let_def

lemma filter_index_notin: "k < 0 \<Longrightarrow> filter_index xs k = xs"
proof -
  assume "k < 0"
  then have "filter (\<lambda>p. int (fst p) \<noteq> k) (enumerate 0 xs) = enumerate 0 xs"
    by (auto simp: filter_id_conv)
  then show ?thesis by (simp add: filter_index_def)
qed

lemma indexOf_notin: "x \<notin> set xs \<Longrightarrow> indexOf xs x = - 1"
  by (induction xs) auto

lemma post_message_success:
  assumes "meta_db s (auth_roomId a) = Some (m, Some d)" and "clock s < d"
  shows "post_message s a sndr body_text mid now =
     (Inr (),
      s\<lparr>messages_db := (messages_db s)(auth_roomId a \<mapsto>
            (lrange_all (messages_db s) (auth_roomId a) @
               [\<lparr>id_msg = mid, sender = sndr, text_msg = body_text, timestamp = now,
                 roomId = auth_roomId a, token = Some (auth_token a)\<rparr>], Some d)),
        emitted := emitted s @
            [(auth_roomId a,
              chat_message \<lparr>id_msg = mid, sender = sndr, text_msg = body_text,
                 timestamp = now, roomId = auth_roomId a\<rparr>)]\<rparr>)"
proof -
  have same_deadline: "clock s + nat (int d - int (clock s)) = d"
    using assms(2) by simp
  show ?thesis
    using assms
    by (simp add: post_message_def Let_def ks_exists_def ks_ttl_def ks_expire_def rpush_def
        ks_put_def emit_def message.defs stored_message.defs same_deadline)
qed

lemma reachable_meta_entry:
  assumes "reachable s" and "ks_exists (meta_db s) room"
  shows "\<exists>m d. meta_db s room = Some (m, Some d) \<and> clock s < d
           \<and> int d \<le> int (clock s) + ROOM_TTL_SECONDS"
proof -
  from assms(2) obtain m dl where e: "meta_db s room = Some (m, dl)"
    by (auto simp: ks_exists_def)
  from reachable_deadline[OF assms(1), of room] e show ?thesis
    by (auto simp: meta_deadline_ok_def split: option.splits)
qed

lemma post_message_outcome:
  "fst (post_message s a sndr body_text mid now) = Inr () \<longleftrightarrow> ks_exists (meta_db s) (auth_roomId a)"
  by (simp add: post_message_def Let_def)

lemma join_read_write:
  "join s room username tok =
     (case ks_get (meta_db s) room of
        None \<Rightarrow> (join_error ''room-not-found'', s)
      | Some m \<Rightarrow> join_write s room username tok m)"
  by (simp add: join_def join_write_def split: option.splits)

lemma post_message_ttl_positive:
  assumes "0 < ks_ttl (clock s) (meta_db s) (auth_roomId a)"
  shows "fst (post_message s a sndr body_text mid now) = Inr ()
    \<and> ks_ttl (clock (snd (post_message s a sndr body_text mid now)))
            (messages_db (snd (post_message s a sndr body_text mid now))) (auth_roomId a)
          = ks_ttl (clock s) (meta_db s) (auth_roomId a)
    \<and> meta_db (snd (post_message s a sndr body_text mid now)) = meta_db s
    \<and> clock (snd (post_message s a sndr body_text mid now)) = clock s"
proof -
  from assms obtain m d where e: "meta_db s (auth_roomId a) = Some (m, Some d)"
    and d: "clock s < d"
    by (auto simp: ks_ttl_def split: option.splits)
  show ?thesis
    using e d by (simp add: post_message_success[OF e d] ks_ttl_def)
qed

section \<open>Claims\<close>

text \<open>
  C1. The admission script answers 0 and leaves the store as it is when the room's set
  holds at least 2 tokens, and otherwise inserts the token and answers 1. The set of a
  room never holds more than 2 tokens in a reachable state. Over any run of admission
  attempts on a room whose set holds at most 2 tokens, the set still holds at most 2
  tokens afterwards, the admitted tokens are at most 2, and when the attempts bring
  distinct tokens that are not in the set yet, the attempts answered 1 together with
  the tokens already there are at most 2.
\<close>

theorem atomic_admission_capacity:
  "(2 \<le> scard (connected_db s) room \<longrightarrow> admit s room tok = (0, s))
   \<and> (scard (connected_db s) room < 2 \<longrightarrow>
        fst (admit s room tok) = 1
        \<and> smembers (connected_db (snd (admit s room tok))) room
            = finsert tok (smembers (connected_db s) room))
   \<and> (reachable s \<longrightarrow> scard (connected_db s) room \<le> 2)
   \<and> (scard (connected_db s) room \<le> 2 \<longrightarrow>
        scard (connected_db (snd (admit_all s room toks))) room \<le> 2
        \<and> fcard (fset_of_list (admitted_tokens toks (fst (admit_all s room toks)))) \<le> 2
        \<and> (distinct toks \<and> (\<forall>t \<in> set toks. \<not> sismember (connected_db s) room t) \<longrightarrow>
             admitted (fst (admit_all s room toks)) + scard (connected_db s) room \<le> 2))"
proof (intro conjI impI)
  assume "2 \<le> scard (connected_db s) room"
  then show "admit s room tok = (0, s)" by (simp add: admit_unfold)
next
  assume lt: "scard (connected_db s) room < 2"
  then show "fst (admit s room tok) = 1" by (simp add: admit_unfold)
  from lt show "smembers (connected_db (snd (admit s room tok))) room
            = finsert tok (smembers (connected_db s) room)"
    by (simp add: admit_unfold smembers_sadd)
next
  assume "reachable s"
  then show "scard (connected_db s) room \<le> 2" by (rule reachable_capacity)
next
  assume le: "scard (connected_db s) room \<le> 2"
  then show "scard (connected_db (snd (admit_all s room toks))) room \<le> 2"
    by (rule admit_all_scard_le)
  from le show "fcard (fset_of_list (admitted_tokens toks (fst (admit_all s room toks)))) \<le> 2"
    by (rule admitted_tokens_le)
  assume "distinct toks \<and> (\<forall>t \<in> set toks. \<not> sismember (connected_db s) room t)"
  with le show "admitted (fst (admit_all s room toks)) + scard (connected_db s) room \<le> 2"
    by (simp add: admit_all_count)
qed

theorem atomic_admission_capacity_witness:
  "admit (snd (admit_all init ''r'' [''a'', ''b''])) ''r'' ''c'' = (0, snd (admit_all init ''r'' [''a'', ''b'']))
   \<and> fst (admit init ''r'' ''a'') = 1
   \<and> reachable init \<and> scard (connected_db init) ''r'' \<le> 2
   \<and> fst (admit_all init ''r'' [''a'', ''b'', ''c'']) = [1, 1, 0]
   \<and> admitted (fst (admit_all init ''r'' [''a'', ''b'', ''c''])) + scard (connected_db init) ''r'' \<le> 2"
proof -
  have full: "2 \<le> scard (connected_db (snd (admit_all init ''r'' [''a'', ''b'']))) ''r''"
    by (simp add: admit_def admit_script_def store_defs init_def fcard_finsert_if fcard_fempty)
  have empty: "scard (connected_db init) ''r'' = 0"
    by (simp add: store_defs init_def)
  have fresh: "distinct [''a'', ''b'', ''c''] \<and>
      (\<forall>t \<in> set [''a'', ''b'', ''c'']. \<not> sismember (connected_db init) ''r'' t)"
    by (simp add: store_defs init_def)
  have run: "fst (admit_all init ''r'' [''a'', ''b'', ''c'']) = [1, 1, 0]"
    by (simp add: admit_def admit_script_def store_defs init_def fcard_finsert_if fcard_fempty)
  from atomic_admission_capacity [of "snd (admit_all init ''r'' [''a'', ''b''])" "''r''" "''c''" "[]"] full
  have a: "admit (snd (admit_all init ''r'' [''a'', ''b''])) ''r'' ''c'' = (0, snd (admit_all init ''r'' [''a'', ''b'']))"
    by blast
  from atomic_admission_capacity [of init "''r''" "''a''" "[''a'', ''b'', ''c'']"] empty fresh reach_init
  have b: "fst (admit init ''r'' ''a'') = 1"
    and c: "scard (connected_db init) ''r'' \<le> 2"
    and d: "admitted (fst (admit_all init ''r'' [''a'', ''b'', ''c''])) + scard (connected_db init) ''r'' \<le> 2"
    by simp_all
  from a b c d run reach_init show ?thesis by blast
qed

text \<open>
  C2. Leaving a room whose metadata record is absent writes and deletes no key and emits
  no event: the state stays as it is. The reply carries \<open>success: false\<close>, not
  \<open>success: true\<close>.
\<close>

theorem leave_absent_no_effect:
  "ks_get (meta_db s) (auth_roomId a) = None \<Longrightarrow> leave s a = (False, s)"
  by (simp add: leave_def)

theorem leave_absent_no_effect_witness:
  "leave init \<lparr>auth_roomId = ''r'', auth_token = ''t''\<rparr> = (False, init)"
proof -
  have "ks_get (meta_db init) (auth_roomId \<lparr>auth_roomId = ''r'', auth_token = ''t''\<rparr>) = None"
    by (simp add: init_def ks_get_def)
  then show ?thesis by (rule leave_absent_no_effect)
qed

text \<open>
  The reply to leaving an absent room is not a success.
\<close>

theorem leave_absent_counterexample:
  "ks_get (meta_db init) ''r'' = None
   \<and> fst (leave init \<lparr>auth_roomId = ''r'', auth_token = ''t''\<rparr>) \<noteq> True"
  by (simp add: leave_def init_def ks_get_def)

text \<open>
  C3. Joining a room without a metadata record answers \<open>room-not-found\<close>; joining a
  private room whose member-name list has at least 2 entries answers \<open>room-full\<close>; in
  both cases the state stays as it is. Otherwise the reply carries the room id, the fresh
  token and the room's type, the display name is appended to the member-name list and the
  token to the connected-token list, and one \<open>chat.user_joined\<close> event with the display
  name is emitted on the room's channel.
\<close>

theorem join_spec:
  "(ks_get (meta_db s) room = None \<longrightarrow>
      join s room username tok = (join_error ''room-not-found'', s))
   \<and> (\<forall>m. ks_get (meta_db s) room = Some m \<longrightarrow>
        (type m = ''private'' \<and> 2 \<le> length (users m) \<longrightarrow>
           join s room username tok = (join_error ''room-full'', s))
        \<and> (\<not> (type m = ''private'' \<and> 2 \<le> length (users m)) \<longrightarrow>
             fst (join s room username tok) = join_ok room tok (type m)
             \<and> ks_get (meta_db (snd (join s room username tok))) room
                 = Some (m\<lparr>users := users m @ [username], connected := connected m @ [tok]\<rparr>)
             \<and> emitted (snd (join s room username tok))
                 = emitted s @ [(room, chat_user_joined username)]))"
  by (auto simp: join_def Let_def MAX_PRIVATE_USERS_def store_defs)

theorem join_spec_witness:
  "join init ''r'' ''bob'' ''t2'' = (join_error ''room-not-found'', init)
   \<and> join full_room ''r'' ''carol'' ''t3'' = (join_error ''room-full'', full_room)
   \<and> fst (join private_room ''r'' ''bob'' ''t2'') = join_ok ''r'' ''t2'' ''private''
   \<and> ks_get (meta_db (snd (join private_room ''r'' ''bob'' ''t2''))) ''r''
       = Some \<lparr>connected = [''t1'', ''t2''], createdAt = 1000, type = ''private'',
               users = [''alice'', ''bob'']\<rparr>
   \<and> emitted (snd (join private_room ''r'' ''bob'' ''t2'')) = [(''r'', chat_user_joined ''bob'')]"
proof -
  have a: "ks_get (meta_db init) ''r'' = None"
    by (simp add: init_def ks_get_def)
  have b: "ks_get (meta_db full_room) ''r''
      = Some \<lparr>connected = [''t1'', ''t2''], createdAt = 1000, type = ''private'',
               users = [''alice'', ''bob'']\<rparr>"
    by (simp add: example_defs store_defs)
  have c: "ks_get (meta_db private_room) ''r''
      = Some \<lparr>connected = [''t1''], createdAt = 1000, type = ''private'', users = [''alice'']\<rparr>"
    by (simp add: example_defs store_defs)
  have e: "emitted private_room = []"
    by (simp add: example_defs store_defs)
  from join_spec [of init "''r''" "''bob''" "''t2''"] a
  have 1: "join init ''r'' ''bob'' ''t2'' = (join_error ''room-not-found'', init)" by simp
  from join_spec [of full_room "''r''" "''carol''" "''t3''"] b
  have 2: "join full_room ''r'' ''carol'' ''t3'' = (join_error ''room-full'', full_room)" by simp
  from join_spec [of private_room "''r''" "''bob''" "''t2''"] c e
  have 3: "fst (join private_room ''r'' ''bob'' ''t2'') = join_ok ''r'' ''t2'' ''private''
   \<and> ks_get (meta_db (snd (join private_room ''r'' ''bob'' ''t2''))) ''r''
       = Some \<lparr>connected = [''t1'', ''t2''], createdAt = 1000, type = ''private'',
               users = [''alice'', ''bob'']\<rparr>
   \<and> emitted (snd (join private_room ''r'' ''bob'' ''t2'')) = [(''r'', chat_user_joined ''bob'')]"
    by simp
  from 1 2 3 show ?thesis by blast
qed




text \<open>
  C5. Destroying a room of type \<open>group\<close> throws and leaves the state as it is. For any
  other room the call succeeds, emits exactly one \<open>chat.destroy\<close> event, and the
  metadata record and the message log are gone afterwards, whatever the member lists
  hold.
\<close>

theorem destroy_spec:
  "(map_option type (ks_get (meta_db s) (auth_roomId a)) = Some ''group'' \<longrightarrow>
      destroy s a = (Inl (Error ''Cannot manually destroy group rooms''), s))
   \<and> (map_option type (ks_get (meta_db s) (auth_roomId a)) \<noteq> Some ''group'' \<longrightarrow>
        fst (destroy s a) = Inr True
        \<and> emitted (snd (destroy s a)) = emitted s @ [(auth_roomId a, chat_destroy True)]
        \<and> meta_db (snd (destroy s a)) (auth_roomId a) = None
        \<and> messages_db (snd (destroy s a)) (auth_roomId a) = None)"
  by (simp add: destroy_def Let_def emit_def ks_del_def)

theorem destroy_spec_witness:
  "destroy group_room \<lparr>auth_roomId = ''g'', auth_token = ''t1''\<rparr>
     = (Inl (Error ''Cannot manually destroy group rooms''), group_room)
   \<and> fst (destroy full_room \<lparr>auth_roomId = ''r'', auth_token = ''t1''\<rparr>) = Inr True
   \<and> emitted (snd (destroy full_room \<lparr>auth_roomId = ''r'', auth_token = ''t1''\<rparr>))
       = [(''r'', chat_user_joined ''bob''), (''r'', chat_destroy True)]
   \<and> meta_db (snd (destroy full_room \<lparr>auth_roomId = ''r'', auth_token = ''t1''\<rparr>)) ''r'' = None
   \<and> messages_db (snd (destroy full_room \<lparr>auth_roomId = ''r'', auth_token = ''t1''\<rparr>)) ''r'' = None"
proof -
  have g: "map_option type (ks_get (meta_db group_room) ''g'') = Some ''group''"
    by (simp add: example_defs store_defs)
  have p: "map_option type (ks_get (meta_db full_room) ''r'') = Some ''private''"
    by (simp add: example_defs store_defs)
  have e: "emitted full_room = [(''r'', chat_user_joined ''bob'')]"
    by (simp add: example_defs store_defs)
  from destroy_spec [of group_room "\<lparr>auth_roomId = ''g'', auth_token = ''t1''\<rparr>"] g
  have 1: "destroy group_room \<lparr>auth_roomId = ''g'', auth_token = ''t1''\<rparr>
     = (Inl (Error ''Cannot manually destroy group rooms''), group_room)" by simp
  from destroy_spec [of full_room "\<lparr>auth_roomId = ''r'', auth_token = ''t1''\<rparr>"] p e
  have 2: "fst (destroy full_room \<lparr>auth_roomId = ''r'', auth_token = ''t1''\<rparr>) = Inr True
   \<and> emitted (snd (destroy full_room \<lparr>auth_roomId = ''r'', auth_token = ''t1''\<rparr>))
       = [(''r'', chat_user_joined ''bob''), (''r'', chat_destroy True)]
   \<and> meta_db (snd (destroy full_room \<lparr>auth_roomId = ''r'', auth_token = ''t1''\<rparr>)) ''r'' = None
   \<and> messages_db (snd (destroy full_room \<lparr>auth_roomId = ''r'', auth_token = ''t1''\<rparr>)) ''r'' = None"
    by simp
  from 1 2 show ?thesis by blast
qed

text \<open>
  C6. Posting a message to a room whose metadata record does not exist throws
  \<open>Room does not exist\<close> and leaves the state as it is: the log gets no entry, no
  event is emitted and no expiry is set.
\<close>

theorem post_message_absent_room:
  "\<not> ks_exists (meta_db s) (auth_roomId a) \<Longrightarrow>
     post_message s a sndr body_text mid now = (Inl (Error ''Room does not exist''), s)"
  by (simp add: post_message_def)

theorem post_message_absent_room_witness:
  "post_message init \<lparr>auth_roomId = ''r'', auth_token = ''t1''\<rparr> ''alice'' ''hi'' ''m1'' 5
     = (Inl (Error ''Room does not exist''), init)"
proof -
  have "\<not> ks_exists (meta_db init) (auth_roomId \<lparr>auth_roomId = ''r'', auth_token = ''t1''\<rparr>)"
    by (simp add: init_def ks_exists_def)
  then show ?thesis by (rule post_message_absent_room)
qed

text \<open>
  C7. A listing has one entry for each entry of the message log, in the order of the
  log and with the same message fields. The token of an entry is present exactly when
  the stored token is the requester's token, and then it is that token. A message posted
  to the room is listed last, after the messages listed before; its token is shown to a
  requester with the author's token and is absent for any other token.
\<close>

theorem list_messages_spec:
  "length (list_messages s a) = length (lrange_all (messages_db s) (auth_roomId a))
   \<and> (\<forall>i < length (lrange_all (messages_db s) (auth_roomId a)).
        message.truncate (list_messages s a ! i)
          = message.truncate (lrange_all (messages_db s) (auth_roomId a) ! i)
        \<and> (token (list_messages s a ! i) \<noteq> None
             \<longleftrightarrow> token (lrange_all (messages_db s) (auth_roomId a) ! i) = Some (auth_token a))
        \<and> (token (list_messages s a ! i) \<noteq> None
             \<longrightarrow> token (list_messages s a ! i) = Some (auth_token a)))
   \<and> (reachable s \<and> fst (post_message s b sndr body_text mid now) = Inr ()
        \<and> auth_roomId b = auth_roomId a \<longrightarrow>
        list_messages (snd (post_message s b sndr body_text mid now)) a
          = list_messages s a @
              [\<lparr>id_msg = mid, sender = sndr, text_msg = body_text, timestamp = now,
                roomId = auth_roomId a,
                token = (if auth_token b = auth_token a then Some (auth_token a) else None)\<rparr>])"
proof (intro conjI impI allI)
  show "length (list_messages s a) = length (lrange_all (messages_db s) (auth_roomId a))"
    by (simp add: list_messages_def)
next
  fix i assume i: "i < length (lrange_all (messages_db s) (auth_roomId a))"
  then show "message.truncate (list_messages s a ! i)
          = message.truncate (lrange_all (messages_db s) (auth_roomId a) ! i)"
    by (simp add: list_messages_def message.defs)
  from i show "(token (list_messages s a ! i) \<noteq> None)
      = (token (lrange_all (messages_db s) (auth_roomId a) ! i) = Some (auth_token a))"
    by (simp add: list_messages_def)
  assume "token (list_messages s a ! i) \<noteq> None"
  with i show "token (list_messages s a ! i) = Some (auth_token a)"
    by (simp add: list_messages_def split: if_splits)
next
  assume h: "reachable s \<and> fst (post_message s b sndr body_text mid now) = Inr ()
        \<and> auth_roomId b = auth_roomId a"
  then have "ks_exists (meta_db s) (auth_roomId b)"
    using post_message_outcome by blast
  with h obtain m d where e: "meta_db s (auth_roomId b) = Some (m, Some d)"
    and d: "clock s < d"
    using reachable_meta_entry by blast
  from h have r: "auth_roomId b = auth_roomId a" by simp
  show "list_messages (snd (post_message s b sndr body_text mid now)) a
          = list_messages s a @
              [\<lparr>id_msg = mid, sender = sndr, text_msg = body_text, timestamp = now,
                roomId = auth_roomId a,
                token = (if auth_token b = auth_token a then Some (auth_token a) else None)\<rparr>]"
    by (simp add: post_message_success[OF e d] list_messages_def r lrange_all_def ks_get_def)
qed

theorem list_messages_spec_witness:
  "list_messages posted_room \<lparr>auth_roomId = ''r'', auth_token = ''t1''\<rparr>
     = [\<lparr>id_msg = ''m1'', sender = ''alice'', text_msg = ''hi'', timestamp = 2000,
         roomId = ''r'', token = Some ''t1''\<rparr>]
   \<and> list_messages posted_room \<lparr>auth_roomId = ''r'', auth_token = ''t2''\<rparr>
     = [\<lparr>id_msg = ''m1'', sender = ''alice'', text_msg = ''hi'', timestamp = 2000,
         roomId = ''r'', token = None\<rparr>]
   \<and> token (list_messages posted_room \<lparr>auth_roomId = ''r'', auth_token = ''t2''\<rparr> ! 0) = None"
proof -
  let ?alice = "\<lparr>auth_roomId = ''r'', auth_token = ''t1''\<rparr>"
  let ?bob = "\<lparr>auth_roomId = ''r'', auth_token = ''t2''\<rparr>"
  have r: "reachable full_room"
    unfolding full_room_def private_room_def by (intro reachable.intros)
  have ok: "fst (post_message full_room ?alice ''alice'' ''hi'' ''m1'' 2000) = Inr ()"
    by (simp add: post_message_def example_defs store_defs)
  have before: "list_messages full_room ?alice = []" "list_messages full_room ?bob = []"
    by (simp_all add: list_messages_def example_defs store_defs)
  have log: "lrange_all (messages_db posted_room) ''r''
     = [\<lparr>id_msg = ''m1'', sender = ''alice'', text_msg = ''hi'', timestamp = 2000,
         roomId = ''r'', token = Some ''t1''\<rparr>]"
    by (simp add: posted_room_def post_message_def example_defs store_defs
        message.defs stored_message.defs)
  from list_messages_spec [of full_room ?alice ?alice "''alice''" "''hi''" "''m1''" 2000] r ok before
  have 1: "list_messages posted_room ?alice
     = [\<lparr>id_msg = ''m1'', sender = ''alice'', text_msg = ''hi'', timestamp = 2000,
         roomId = ''r'', token = Some ''t1''\<rparr>]"
    by (simp add: posted_room_def)
  from list_messages_spec [of full_room ?bob ?alice "''alice''" "''hi''" "''m1''" 2000] r ok before
  have 2: "list_messages posted_room ?bob
     = [\<lparr>id_msg = ''m1'', sender = ''alice'', text_msg = ''hi'', timestamp = 2000,
         roomId = ''r'', token = None\<rparr>]"
    by (simp add: posted_room_def)
  from list_messages_spec [of posted_room ?bob ?alice "''alice''" "''hi''" "''m1''" 2000] log
  have 3: "token (list_messages posted_room ?bob ! 0) = None"
    by simp
  from 1 2 3 show ?thesis by blast
qed

text \<open>
  C8. In the state a delayed join leaves behind, the metadata record exists and its TTL
  reads \<open>-1\<close>. A post there succeeds, and the \<open>expire\<close> call with that reading deletes
  the message log, the new message included: afterwards the TTL of the log reads \<open>-2\<close>
  and that of the metadata record \<open>-1\<close>.
\<close>

theorem post_message_without_expiry:
  "ks_exists (meta_db stale_join_room) ''r''
   \<and> ks_ttl (clock stale_join_room) (meta_db stale_join_room) ''r'' = - 1
   \<and> fst (post_message stale_join_room \<lparr>auth_roomId = ''r'', auth_token = ''t1''\<rparr>
             ''alice'' ''hi'' ''m1'' 2000) = Inr ()
   \<and> messages_db (snd (post_message stale_join_room \<lparr>auth_roomId = ''r'', auth_token = ''t1''\<rparr>
                          ''alice'' ''hi'' ''m1'' 2000)) ''r'' = None
   \<and> ks_ttl (clock (snd (post_message stale_join_room \<lparr>auth_roomId = ''r'', auth_token = ''t1''\<rparr>
                              ''alice'' ''hi'' ''m1'' 2000)))
        (messages_db (snd (post_message stale_join_room \<lparr>auth_roomId = ''r'', auth_token = ''t1''\<rparr>
                              ''alice'' ''hi'' ''m1'' 2000))) ''r'' = - 2
   \<and> ks_ttl (clock (snd (post_message stale_join_room \<lparr>auth_roomId = ''r'', auth_token = ''t1''\<rparr>
                              ''alice'' ''hi'' ''m1'' 2000)))
        (meta_db (snd (post_message stale_join_room \<lparr>auth_roomId = ''r'', auth_token = ''t1''\<rparr>
                              ''alice'' ''hi'' ''m1'' 2000))) ''r'' = - 1"
  by (simp add: stale_join_room_def join_delayed_def join_write_def post_message_def
      example_defs store_defs)

text \<open>
  C9. The TTL reply is never negative, and it is 0 when the metadata record is absent.
  Read fewer than 10 seconds after the room was created, it is above 590 and at most
  600.
\<close>

theorem get_ttl_bounds:
  "0 \<le> get_ttl s a
   \<and> (\<not> ks_exists (meta_db s) (auth_roomId a) \<longrightarrow> get_ttl s a = 0)
   \<and> (d < 10 \<longrightarrow>
        590 < get_ttl (tick d (snd (create s ty username room tok now)))
                \<lparr>auth_roomId = room, auth_token = tok\<rparr>
        \<and> get_ttl (tick d (snd (create s ty username room tok now)))
                \<lparr>auth_roomId = room, auth_token = tok\<rparr> \<le> 600)"
proof (intro conjI impI)
  show "0 \<le> get_ttl s a" by (simp add: get_ttl_def Let_def)
next
  assume "\<not> ks_exists (meta_db s) (auth_roomId a)"
  then have "meta_db s (auth_roomId a) = None" unfolding ks_exists_def by blast
  then show "get_ttl s a = 0" by (simp add: get_ttl_def Let_def ks_ttl_def)
next
  assume d: "d < 10"
  have "get_ttl (tick d (snd (create s ty username room tok now)))
                \<lparr>auth_roomId = room, auth_token = tok\<rparr> = 600 - int d"
    using d
    by (simp add: get_ttl_def create_def tick_def Let_def ks_ttl_def ks_put_def ks_expire_def
        ks_purge_def ROOM_TTL_SECONDS_def)
  with d show "590 < get_ttl (tick d (snd (create s ty username room tok now)))
                \<lparr>auth_roomId = room, auth_token = tok\<rparr>"
    and "get_ttl (tick d (snd (create s ty username room tok now)))
                \<lparr>auth_roomId = room, auth_token = tok\<rparr> \<le> 600"
    by simp_all
qed

theorem get_ttl_bounds_witness:
  "get_ttl init \<lparr>auth_roomId = ''r'', auth_token = ''t1''\<rparr> = 0
   \<and> 590 < get_ttl (tick 9 (snd (create init ''private'' ''alice'' ''r'' ''t1'' 1000)))
              \<lparr>auth_roomId = ''r'', auth_token = ''t1''\<rparr>
   \<and> get_ttl (tick 9 (snd (create init ''private'' ''alice'' ''r'' ''t1'' 1000)))
              \<lparr>auth_roomId = ''r'', auth_token = ''t1''\<rparr> \<le> 600"
proof -
  have a: "\<not> ks_exists (meta_db init) (auth_roomId \<lparr>auth_roomId = ''r'', auth_token = ''t1''\<rparr>)"
    by (simp add: init_def ks_exists_def)
  have d: "(9::nat) < 10" by simp
  from get_ttl_bounds [of init "\<lparr>auth_roomId = ''r'', auth_token = ''t1''\<rparr>" 0] a
  have 1: "get_ttl init \<lparr>auth_roomId = ''r'', auth_token = ''t1''\<rparr> = 0" by blast
  from get_ttl_bounds [of init "\<lparr>auth_roomId = ''r'', auth_token = ''t1''\<rparr>" 9
      "''private''" "''alice''" "''r''" "''t1''" 1000] d
  have 2: "590 < get_ttl (tick 9 (snd (create init ''private'' ''alice'' ''r'' ''t1'' 1000)))
              \<lparr>auth_roomId = ''r'', auth_token = ''t1''\<rparr>
   \<and> get_ttl (tick 9 (snd (create init ''private'' ''alice'' ''r'' ''t1'' 1000)))
              \<lparr>auth_roomId = ''r'', auth_token = ''t1''\<rparr> \<le> 600" by blast
  from 1 2 show ?thesis by blast
qed

text \<open>
  C10. When the metadata record exists with a member-name list that is not empty and the
  caller's token is not in its connected-token list, leaving succeeds, the metadata
  record (both lists included) and the message log stay as they are, and one
  \<open>chat.user_left\<close> event whose username is undefined is emitted. The example is a
  visitor admitted by the middleware, whose token is in the room's set and not in the
  list.
\<close>

theorem leave_unknown_token:
  assumes "ks_get (meta_db s) (auth_roomId a) = Some m"
    and "users m \<noteq> []"
    and "auth_token a \<notin> set (connected m)"
  shows "fst (leave s a) = True
    \<and> ks_get (meta_db (snd (leave s a))) (auth_roomId a) = Some m
    \<and> meta_db (snd (leave s a)) = meta_db s
    \<and> messages_db (snd (leave s a)) = messages_db s
    \<and> emitted (snd (leave s a)) = emitted s @ [(auth_roomId a, chat_user_left None)]"
proof -
  have i: "indexOf (connected m) (auth_token a) = - 1"
    using assms(3) by (rule indexOf_notin)
  have u: "filter_index (users m) (- 1) = users m"
    by (simp add: filter_index_notin)
  have c: "filter (\<lambda>t. t \<noteq> auth_token a) (connected m) = connected m"
    using assms(3) by (auto simp: filter_id_conv)
  have put: "ks_put (meta_db s) (auth_roomId a) m = meta_db s"
    using assms(1) by (auto simp: ks_put_def ks_get_def fun_eq_iff)
  show ?thesis
    using assms(1,2) by (simp add: leave_def Let_def i u c put emit_def at_index_def)
qed

theorem leave_unknown_token_witness:
  "sismember (connected_db visitor_room) ''r'' ''t9''
   \<and> fst (leave visitor_room \<lparr>auth_roomId = ''r'', auth_token = ''t9''\<rparr>) = True
   \<and> ks_get (meta_db (snd (leave visitor_room \<lparr>auth_roomId = ''r'', auth_token = ''t9''\<rparr>))) ''r''
       = Some \<lparr>connected = [''t1''], createdAt = 1000, type = ''private'', users = [''alice'']\<rparr>
   \<and> emitted (snd (leave visitor_room \<lparr>auth_roomId = ''r'', auth_token = ''t9''\<rparr>))
       = [(''r'', chat_user_left None)]"
proof -
  let ?m = "\<lparr>connected = [''t1''], createdAt = 1000, type = ''private'', users = [''alice'']\<rparr>"
  let ?a = "\<lparr>auth_roomId = ''r'', auth_token = ''t9''\<rparr>"
  have g: "sismember (connected_db visitor_room) ''r'' ''t9''"
    by (simp add: example_defs store_defs fcard_fempty)
  have c: "ks_get (meta_db visitor_room) (auth_roomId ?a) = Some ?m"
    by (simp add: example_defs store_defs fcard_fempty)
  have u: "users ?m \<noteq> []" by simp
  have n: "auth_token ?a \<notin> set (connected ?m)" by simp
  have e: "emitted visitor_room = []"
    by (simp add: example_defs store_defs fcard_fempty)
  from leave_unknown_token [OF c u n] e g c show ?thesis by simp
qed

end
